theory Spec2Isabelle
  imports Main
begin

section \<open>JavaScript values, objects and the store\<close>

text \<open>
  The values that reach \<^verbatim>\<open>Image.js\<close> as props and option values are scalars.
  A number is an integer (\<open>JNum\<close>), \<open>NaN\<close>, or a number that is not an integer
  (\<open>JFrac\<close>: one with a fractional part, or an infinity), which is given by the text
  \<^verbatim>\<open>String\<close> prints for it, such as \<open>0.5\<close>. The code tests numbers for
  truthiness and prints them, and does no arithmetic on them.
\<close>

datatype jsval =
  JUndefined | JNull | JBool bool | JNum int | JFrac string | JNaN | JStr string

text \<open>ToBoolean: what \<^verbatim>\<open>if (v)\<close>, \<^verbatim>\<open>!v\<close>, \<^verbatim>\<open>a || b\<close> and \<^verbatim>\<open>a && b\<close> test.\<close>

fun truthy :: "jsval \<Rightarrow> bool" where
  "truthy JUndefined = False"
| "truthy JNull = False"
| "truthy (JBool b) = b"
| "truthy (JNum n) = (n \<noteq> 0)"
| "truthy (JFrac d) = True"
| "truthy JNaN = False"
| "truthy (JStr s) = (s \<noteq> [])"

text \<open>\<^verbatim>\<open>a || b\<close> and \<^verbatim>\<open>a && b\<close> return one of their operands, not a boolean.\<close>

definition js_or :: "jsval \<Rightarrow> jsval \<Rightarrow> jsval" where
  "js_or a b = (if truthy a then a else b)"

definition js_and :: "jsval \<Rightarrow> jsval \<Rightarrow> jsval" where
  "js_and a b = (if truthy a then b else a)"

text \<open>\<^verbatim>\<open>v == null\<close> holds for \<^verbatim>\<open>null\<close> and \<^verbatim>\<open>undefined\<close> only.\<close>

definition loose_eq_null :: "jsval \<Rightarrow> bool" where
  "loose_eq_null v = (v = JNull \<or> v = JUndefined)"

text \<open>
  A plain object is the list of its own enumerable properties in insertion order, which
  is the order of \<^verbatim>\<open>Object.keys\<close>. Reading a missing property gives
  \<^verbatim>\<open>undefined\<close>; an assignment overwrites the property in place or appends it.
\<close>

type_synonym obj = "(string \<times> jsval) list"

fun obj_get :: "obj \<Rightarrow> string \<Rightarrow> jsval" where
  "obj_get [] k = JUndefined"
| "obj_get ((k', v) # ps) k = (if k' = k then v else obj_get ps k)"

fun obj_set :: "obj \<Rightarrow> string \<Rightarrow> jsval \<Rightarrow> obj" where
  "obj_set [] k v = [(k, v)]"
| "obj_set ((k', v') # ps) k v = (if k' = k then (k, v) # ps else (k', v') # obj_set ps k v)"

definition obj_keys :: "obj \<Rightarrow> string list" where
  "obj_keys ob = map fst ob"

text \<open>
  Objects are passed by reference, and \<^verbatim>\<open>createOptimizedSrc\<close> assigns to a
  property of its argument. The store is the list of all objects allocated so far; a
  reference is an index into it, and a new object goes to the end.
\<close>

type_synonym ref = nat
type_synonym heap = "obj list"

datatype error = ReferenceError

section \<open>Lexical bindings\<close>

text \<open>
  A \<^verbatim>\<open>const\<close> or \<^verbatim>\<open>let\<close> declaration creates its binding when the
  enclosing block is entered, and the binding stays uninitialized until the declaration
  has been evaluated. Reading an uninitialized binding throws a ReferenceError.
\<close>

datatype 'a binding = Uninitialized | Initialized 'a

fun GetBindingValue :: "'a binding \<Rightarrow> error + 'a" where
  "GetBindingValue Uninitialized = Inl ReferenceError"
| "GetBindingValue (Initialized v) = Inr v"

section \<open>The query-string serializer\<close>

text \<open>
  Modelled from the spec: \<^verbatim>\<open>qs.stringify\<close> comes from the external package
  \<^verbatim>\<open>qs\<close>, which is not part of the repository. The spec asks for URL-encoded
  \<open>key=value\<close> pairs joined by \<open>&\<close> in insertion order. Every function below that
  serializes takes the serializer as its first argument; \<open>qs_stringify\<close> is the
  instance used in closed examples.
\<close>

definition hex_digit :: "nat \<Rightarrow> char" where
  "hex_digit n = ''0123456789ABCDEF'' ! (n mod 16)"

definition unreserved :: "char \<Rightarrow> bool" where
  "unreserved c = (c \<in> set ''ABCDEFGHIJKLMNOPQRSTUVWXYZabcdefghijklmnopqrstuvwxyz0123456789-._~'')"

definition encode_char :: "char \<Rightarrow> string" where
  "encode_char c =
     (if unreserved c then [c]
      else [CHR ''%'', hex_digit (of_char c div 16), hex_digit (of_char c mod 16)])"

definition encode :: "string \<Rightarrow> string" where
  "encode s = concat (map encode_char s)"

fun decimal :: "nat \<Rightarrow> string" where
  "decimal n = (if n < 10 then [hex_digit n] else decimal (n div 10) @ [hex_digit (n mod 10)])"

fun value_string :: "jsval \<Rightarrow> string option" where
  "value_string JUndefined = None"
| "value_string JNull = Some []"
| "value_string (JBool b) = Some (if b then ''true'' else ''false'')"
| "value_string (JNum n) = Some (if n < 0 then CHR ''-'' # decimal (nat (- n)) else decimal (nat n))"
| "value_string (JFrac d) = Some d"
| "value_string JNaN = Some ''NaN''"
| "value_string (JStr s) = Some s"

text \<open>\<^verbatim>\<open>String(v)\<close>, as a template string and \<^verbatim>\<open>classnames\<close> apply it.\<close>

fun to_string :: "jsval \<Rightarrow> string" where
  "to_string JUndefined = ''undefined''"
| "to_string JNull = ''null''"
| "to_string (JBool b) = (if b then ''true'' else ''false'')"
| "to_string (JNum n) = (if n < 0 then CHR ''-'' # decimal (nat (- n)) else decimal (nat n))"
| "to_string (JFrac d) = d"
| "to_string JNaN = ''NaN''"
| "to_string (JStr s) = s"

fun join_amp :: "string list \<Rightarrow> string" where
  "join_amp [] = []"
| "join_amp [p] = p"
| "join_amp (p # ps) = p @ ''&'' @ join_amp ps"

definition qs_stringify :: "obj \<Rightarrow> string" where
  "qs_stringify ob =
     join_amp (List.map_filter
       (\<lambda>(k, v). map_option (\<lambda>s. encode k @ ''='' @ encode s) (value_string v)) ob)"

section \<open>The URL optimizer\<close>

definition LEGACY_IMAGE_OPTIMIZER :: string where
  "LEGACY_IMAGE_OPTIMIZER = ''https://opt.moovweb.net''"

definition RESPONSIVE_IMAGE_OPTIMIZER :: string where
  "RESPONSIVE_IMAGE_OPTIMIZER = ''https://optimize.moovweb.net/img''"

definition LOCAL_IMAGE_OPTIMIZER :: string where
  "LOCAL_IMAGE_OPTIMIZER = ''http://localhost:8090/img''"

text \<open>
  The module variable \<^verbatim>\<open>optimizerUrlBase\<close> starts as the legacy endpoint and is
  replaced by \<^verbatim>\<open>setImageOptimizer\<close>. The functions that read it take its current
  value as the argument \<open>optimizerUrlBase\<close>.
\<close>

definition setImageOptimizer :: "string \<Rightarrow> string \<Rightarrow> string" where
  "setImageOptimizer url optimizerUrlBase = url"

text \<open>
  \<^verbatim>\<open>createOptimizedSrc(src, options = {})\<close>. The argument \<open>None\<close> is an omitted
  (or \<^verbatim>\<open>undefined\<close>) second argument, for which the default \<^verbatim>\<open>{}\<close> is
  allocated. The result is the returned value or the exception thrown, with the store
  after the call.

  Line 91 assigns \<^verbatim>\<open>options.fmt\<close> on the object the caller passed.

  Lines 93 to 95: the block declares \<^verbatim>\<open>const options\<close>, which shadows the parameter
  throughout the block. The initializer \<^verbatim>\<open>{ ...options, img: src }\<close> therefore reads
  the block's own binding, which is still uninitialized at that point.
\<close>

definition createOptimizedSrc ::
  "(obj \<Rightarrow> string) \<Rightarrow> string \<Rightarrow> jsval \<Rightarrow> ref option \<Rightarrow> heap \<Rightarrow> (error + jsval) \<times> heap" where
  "createOptimizedSrc stringify optimizerUrlBase src optarg h =
     (let (options, h0) = (case optarg of None \<Rightarrow> (length h, h @ [[]]) | Some r \<Rightarrow> (r, h));
          h1 = (if truthy (obj_get (h0 ! options) ''format'')
                then h0[options := obj_set (h0 ! options) ''fmt'' (obj_get (h0 ! options) ''format'')]
                else h0)
      in if length (obj_keys (h1 ! options)) > 0
         then (let inner_options = (Uninitialized :: ref binding)
               in case GetBindingValue inner_options of
                    Inl e \<Rightarrow> (Inl e, h1)
                  | Inr r \<Rightarrow>
                      (let query = obj_set (h1 ! r) ''img'' src
                       in (Inr (JStr (optimizerUrlBase @ ''/?'' @ stringify query)), h1 @ [query])))
         else (Inr src, h1))"

section \<open>The component\<close>

text \<open>
  The props of \<^verbatim>\<open>Image\<close>, after React has filled in \<^verbatim>\<open>defaultProps\<close>.
  \<open>optimize\<close> is a reference to the caller's object (\<open>None\<close> for \<^verbatim>\<open>null\<close>);
  \<open>imgAttributes\<close> are the remaining props, which \<^verbatim>\<open>render\<close> collects with a
  rest pattern. \<open>lazyOffset\<close> is only ever negated, and is the number its prop type
  declares.
\<close>

record props =
  lazy :: jsval
  lazyOffset :: int
  notFoundSrc :: jsval
  height :: jsval
  width :: jsval
  quality :: jsval
  amp :: jsval
  fill :: jsval
  contain :: jsval
  className :: jsval
  aspectRatio :: jsval
  alt :: jsval
  src :: jsval
  optimize :: "ref option"
  imgAttributes :: obj

record state =
  loaded :: jsval
  primaryNotFound :: jsval

text \<open>The image element behind \<^verbatim>\<open>this.ref.current\<close>, when there is one.\<close>

record dom_img =
  complete :: bool
  naturalWidth :: nat

subsection \<open>The load state machine\<close>

definition constructor :: "jsval \<Rightarrow> jsval \<Rightarrow> state" where
  "constructor lazy_prop amp_prop =
     \<lparr>loaded = js_or (JBool (\<not> truthy lazy_prop)) amp_prop, primaryNotFound = JBool False\<rparr>"

definition handleNotFound :: "state \<Rightarrow> state" where
  "handleNotFound st = st\<lparr>primaryNotFound := JBool True\<rparr>"

definition componentDidMount :: "dom_img option \<Rightarrow> state \<Rightarrow> state" where
  "componentDidMount current st =
     (case current of
        None \<Rightarrow> st
      | Some img \<Rightarrow> if complete img \<and> naturalWidth img = 0 then handleNotFound st else st)"

definition lazyLoad :: "jsval \<Rightarrow> state \<Rightarrow> state" where
  "lazyLoad visible st =
     (if \<not> truthy (loaded st) \<and> truthy visible then st\<lparr>loaded := JBool True\<rparr> else st)"

text \<open>
  The three triggers that reach an instance: the mount check, the \<^verbatim>\<open>onError\<close>
  handler of the image element and the \<^verbatim>\<open>onChange\<close> callback of the visibility
  sensor. No other code of the component calls \<^verbatim>\<open>setState\<close>.
\<close>

datatype event = Mount "dom_img option" | Error | Visibility jsval

fun step :: "event \<Rightarrow> state \<Rightarrow> state" where
  "step (Mount current) st = componentDidMount current st"
| "step Error st = handleNotFound st"
| "step (Visibility visible) st = lazyLoad visible st"

fun run :: "event list \<Rightarrow> state \<Rightarrow> state" where
  "run [] st = st"
| "run (e # es) st = run es (step e st)"

subsection \<open>Rendering\<close>

text \<open>
  \<^verbatim>\<open>getOptimizedSrc\<close> builds the object \<^verbatim>\<open>{ ...optimize, quality }\<close>, a new
  object that always has the key \<^verbatim>\<open>quality\<close>, and passes it on.
\<close>

definition getOptimizedSrc ::
  "(obj \<Rightarrow> string) \<Rightarrow> string \<Rightarrow> props \<Rightarrow> heap \<Rightarrow> (error + jsval) \<times> heap" where
  "getOptimizedSrc stringify optimizerUrlBase p h =
     (let options = obj_set (case optimize p of None \<Rightarrow> [] | Some r \<Rightarrow> h ! r) ''quality'' (quality p)
      in createOptimizedSrc stringify optimizerUrlBase (src p) (Some (length h)) (h @ [options]))"

definition ampLayout :: "props \<Rightarrow> string" where
  "ampLayout p =
     (if truthy (js_or (js_or (contain p) (fill p)) (aspectRatio p)) then ''fill'' else ''intrinsic'')"

text \<open>Line 221: \<^verbatim>\<open>contain = contain || aspectRatio\<close>.\<close>

definition effective_contain :: "jsval \<Rightarrow> jsval \<Rightarrow> jsval" where
  "effective_contain contain_prop aspectRatio_prop = js_or contain_prop aspectRatio_prop"

text \<open>
  Lines 224 to 228: \<open>optimized\<close> is what \<^verbatim>\<open>this.getOptimizedSrc()\<close> returned for
  the primary source; the fallback replaces it as it is.
\<close>

definition effective_src :: "jsval \<Rightarrow> jsval \<Rightarrow> jsval \<Rightarrow> jsval" where
  "effective_src primaryNotFound_state notFoundSrc_prop optimized =
     (if truthy (js_and primaryNotFound_state notFoundSrc_prop) then notFoundSrc_prop else optimized)"

text \<open>
  The package \<^verbatim>\<open>classnames\<close>, for the two shapes of call the component makes: an
  optional leading class (kept when it is a non-empty string or a non-zero number) and a
  table of flags, whose keys are kept where the flag is truthy. The style classes are
  written by their keys in \<^verbatim>\<open>styles\<close>.
\<close>

fun join_space :: "string list \<Rightarrow> string" where
  "join_space [] = []"
| "join_space [c] = c"
| "join_space (c # cs) = c @ '' '' @ join_space cs"

definition classnames :: "jsval \<Rightarrow> (string \<times> jsval) list \<Rightarrow> string" where
  "classnames leading flags =
     join_space
       ((case leading of
           JStr s \<Rightarrow> if s = [] then [] else [s]
         | JNum n \<Rightarrow> if n = 0 then [] else [to_string (JNum n)]
         | JFrac d \<Rightarrow> [d]
         | _ \<Rightarrow> [])
        @ map fst (filter (\<lambda>(k, v). truthy v) flags))"

text \<open>
  The rendered tree. An expression \<^verbatim>\<open>a && <element/>\<close> is the element when \<open>a\<close>
  is truthy and the value \<open>a\<close> itself otherwise.
\<close>

datatype 'a slot = Element 'a | Value jsval

datatype image = AmpImg obj | Img obj

record container =
  div_className :: string
  paddingTop :: "string slot"
  child :: "image slot"

datatype rendered =
    Null
  | Div container
  | VisibilitySensor bool int int container

definition merge_attributes :: "obj \<Rightarrow> obj \<Rightarrow> obj" where
  "merge_attributes assigned rest = foldl (\<lambda>acc (k, v). obj_set acc k v) assigned rest"

definition render ::
  "(obj \<Rightarrow> string) \<Rightarrow> string \<Rightarrow> props \<Rightarrow> state \<Rightarrow> heap \<Rightarrow> (error + rendered) \<times> heap" where
  "render stringify optimizerUrlBase p st h =
     (if loose_eq_null (src p) then (Inr Null, h)
      else
        (let contain_local = effective_contain (contain p) (aspectRatio p)
         in case getOptimizedSrc stringify optimizerUrlBase p h of
              (Inl e, h') \<Rightarrow> (Inl e, h')
            | (Inr optimized, h') \<Rightarrow>
                (let src_local = effective_src (primaryNotFound st) (notFoundSrc p) optimized;
                     assignedAttributes =
                       [(''src'', src_local),
                        (''key'', src_local),
                        (if truthy (amp p) then ''class'' else ''className'',
                           JStr (classnames JUndefined
                                   [(''fit'', JBool (\<not> loose_eq_null (aspectRatio p)))])),
                        (''layout'', if truthy (amp p) then JStr (ampLayout p) else JNull),
                        (''height'', height p),
                        (''width'', width p),
                        (''alt'', alt p),
                        (''amp-bind'', obj_get (imgAttributes p) ''amp-bind'')];
                     result =
                       \<lparr>div_className =
                          classnames (className p)
                            [(''root'', JBool True), (''contain'', contain_local), (''fill'', fill p)],
                        paddingTop =
                          (if truthy (aspectRatio p)
                           then Element (to_string (aspectRatio p) @ ''%'')
                           else Value (aspectRatio p)),
                        child =
                          (if truthy (amp p) then Element (AmpImg assignedAttributes)
                           else if truthy (loaded st)
                           then Element (Img (merge_attributes assignedAttributes (imgAttributes p)))
                           else Value (loaded st))\<rparr>
                 in (Inr (if \<not> truthy (amp p) \<and> truthy (lazy p)
                          then VisibilitySensor (\<not> truthy (loaded st))
                                 (- lazyOffset p) (- lazyOffset p) result
                          else Div result),
                     h'))))"

text \<open>
  The props of an instance that sets nothing but \<open>src\<close>: the values of
  \<^verbatim>\<open>defaultProps\<close>, \<^verbatim>\<open>undefined\<close> for the props without a default, and the
  shared default object \<^verbatim>\<open>{}\<close> of \<open>optimize\<close> at address 0 of \<open>default_heap\<close>.
\<close>

definition defaultProps :: "jsval \<Rightarrow> props" where
  "defaultProps src_prop =
     \<lparr>lazy = JBool False, lazyOffset = 100, notFoundSrc = JUndefined, height = JUndefined,
      width = JUndefined, quality = JNull, amp = JUndefined, fill = JBool False,
      contain = JBool False, className = JUndefined, aspectRatio = JUndefined,
      alt = JUndefined, src = src_prop, optimize = Some 0, imgAttributes = []\<rparr>"

definition default_heap :: heap where
  "default_heap = [[]]"

section \<open>Objects and the store: basic facts\<close>

lemma obj_set_nonempty: "obj_set ob k v \<noteq> []"
  by (induction ob k v rule: obj_set.induct) auto

lemma obj_get_obj_set: "obj_get (obj_set ob k v) k' = (if k' = k then v else obj_get ob k')"
  by (induction ob k v rule: obj_set.induct) auto

lemma obj_set_twice: "obj_set (obj_set ob k v) k v = obj_set ob k v"
  by (induction ob k v rule: obj_set.induct) auto

lemma obj_keys_obj_set:
  "obj_keys (obj_set ob k v) = (if k \<in> set (obj_keys ob) then obj_keys ob else obj_keys ob @ [k])"
  by (induction ob k v rule: obj_set.induct) (auto simp: obj_keys_def)

lemma obj_get_defined: "obj_get ob k \<noteq> JUndefined \<Longrightarrow> k \<in> set (obj_keys ob)"
  by (induction ob k rule: obj_get.induct) (auto simp: obj_keys_def split: if_splits)

lemma obj_keys_empty_iff: "length (obj_keys ob) > 0 \<longleftrightarrow> ob \<noteq> []"
  by (simp add: obj_keys_def)

section \<open>The URL optimizer: results\<close>

text \<open>The fast path: an object without own keys gives back \<open>src\<close> and is left alone.\<close>

lemma createOptimizedSrc_empty:
  "r < length h \<Longrightarrow> h ! r = [] \<Longrightarrow> createOptimizedSrc stringify base s (Some r) h = (Inr s, h)"
  by (simp add: createOptimizedSrc_def obj_keys_def)

lemma createOptimizedSrc_default: "createOptimizedSrc stringify base s None h = (Inr s, h @ [[]])"
  by (simp add: createOptimizedSrc_def obj_keys_def nth_append)

text \<open>Every object with an own key runs into the uninitialized binding of line 94.\<close>

lemma createOptimizedSrc_nonempty:
  "r < length h \<Longrightarrow> h ! r \<noteq> [] \<Longrightarrow>
   fst (createOptimizedSrc stringify base s (Some r) h) = Inl ReferenceError"
  by (auto simp: createOptimizedSrc_def obj_keys_def Let_def obj_set_nonempty)

text \<open>The store after the call differs from the store before it in \<open>options.fmt\<close> only.\<close>

lemma createOptimizedSrc_heap:
  "r < length h \<Longrightarrow>
   snd (createOptimizedSrc stringify base s (Some r) h) =
     (if truthy (obj_get (h ! r) ''format'')
      then h[r := obj_set (h ! r) ''fmt'' (obj_get (h ! r) ''format'')]
      else h)"
  by (auto simp: createOptimizedSrc_def obj_keys_def Let_def obj_set_nonempty)

text \<open>
  C1. The claim: for every \<open>src\<close> and every options object, \<open>createOptimizedSrc\<close>
  returns a string without raising, and for options with an own key it returns the base
  URL, \<open>/?\<close> and the query string. The code at \<open>src = "https://x/a.jpg"\<close> and
  \<open>options = {quality: 80, width: 200}\<close>: the options have two own keys, the block of
  line 94 is entered, and the read of the uninitialized \<open>options\<close> throws a
  ReferenceError. No URL is returned.
\<close>

theorem createOptimizedSrc_throws_on_quality_width:
  "createOptimizedSrc qs_stringify LEGACY_IMAGE_OPTIMIZER (JStr ''https://x/a.jpg'') (Some 0)
       [[(''quality'', JNum 80), (''width'', JNum 200)]]
     = (Inl ReferenceError, [[(''quality'', JNum 80), (''width'', JNum 200)]])"
  by (simp add: createOptimizedSrc_def obj_keys_def)

text \<open>
  C2. The claim: with no recognized key (quality \<open>null\<close> or absent, optimize \<open>{}\<close>)
  the call returns \<open>src\<close> unchanged, in particular for the call made on each render. The
  code takes the fast path for an object without keys only. With \<open>quality: null\<close> the
  object has the own key \<open>quality\<close>, so \<open>Object.keys(options).length\<close> is 1: the
  optimizer branch is taken, here ending in the ReferenceError of line 94. This is what
  every render with the default props passes.
\<close>

theorem fast_path_missed_for_null_quality:
  "fst (createOptimizedSrc qs_stringify LEGACY_IMAGE_OPTIMIZER (JStr ''/a.jpg'') (Some 0)
          [[(''quality'', JNull)]]) = Inl ReferenceError
   \<and> fst (getOptimizedSrc qs_stringify LEGACY_IMAGE_OPTIMIZER (defaultProps (JStr ''/a.jpg''))
            default_heap) = Inl ReferenceError
   \<and> fst (getOptimizedSrc qs_stringify LEGACY_IMAGE_OPTIMIZER (defaultProps (JStr ''/a.jpg''))
            default_heap) \<noteq> Inr (JStr ''/a.jpg'')"
  by (simp add: createOptimizedSrc_def getOptimizedSrc_def obj_keys_def defaultProps_def
        default_heap_def)

text \<open>
  C3, as stated: when \<open>format\<close> is set, the query string contains \<open>fmt=<format>\<close>
  and no \<open>format=\<close> pair, the original key being dropped before serialization. It
  fails at \<open>options = {format: "webp"}\<close>: the call ends in the ReferenceError of
  line 94, so no query string with \<open>fmt=webp\<close> is returned, and the object that was to
  be serialized still has the key \<open>format\<close>.
\<close>

theorem format_counterexample:
  "fst (createOptimizedSrc qs_stringify LEGACY_IMAGE_OPTIMIZER (JStr ''/a.jpg'') (Some 0)
          [[(''format'', JStr ''webp'')]]) = Inl ReferenceError
   \<and> obj_keys (snd (createOptimizedSrc qs_stringify LEGACY_IMAGE_OPTIMIZER (JStr ''/a.jpg'')
                      (Some 0) [[(''format'', JStr ''webp'')]]) ! 0) = [''format'', ''fmt'']"
  by (simp add: createOptimizedSrc_def obj_keys_def)

text \<open>
  C3, amended: for every options object whose \<open>format\<close> is truthy, line 91 gives the
  object the key \<open>fmt\<close> with the value of \<open>format\<close> before anything is serialized,
  and the key \<open>format\<close> stays in the object with its value.
\<close>

theorem format_copied_to_fmt:
  assumes "r < length h" and "truthy (obj_get (h ! r) ''format'')"
  shows "obj_get (snd (createOptimizedSrc stringify base s (Some r) h) ! r) ''fmt''
           = obj_get (h ! r) ''format''
         \<and> obj_get (snd (createOptimizedSrc stringify base s (Some r) h) ! r) ''format''
           = obj_get (h ! r) ''format''
         \<and> ''fmt'' \<in> set (obj_keys (snd (createOptimizedSrc stringify base s (Some r) h) ! r))
         \<and> ''format'' \<in> set (obj_keys (snd (createOptimizedSrc stringify base s (Some r) h) ! r))"
proof -
  let ?v = "obj_get (h ! r) ''format''"
  have "snd (createOptimizedSrc stringify base s (Some r) h) = h[r := obj_set (h ! r) ''fmt'' ?v]"
    using assms by (simp add: createOptimizedSrc_heap)
  then have after: "snd (createOptimizedSrc stringify base s (Some r) h) ! r = obj_set (h ! r) ''fmt'' ?v"
    using assms(1) by simp
  have "?v \<noteq> JUndefined"
    using assms(2) by auto
  then have "''format'' \<in> set (obj_keys (h ! r))"
    by (rule obj_get_defined)
  then show ?thesis
    unfolding after by (simp add: obj_get_obj_set obj_keys_obj_set)
qed

theorem format_copied_to_fmt_witness:
  "(0::nat) < length [[(''format'', JStr ''jpeg''), (''width'', JNum 200)]]
   \<and> truthy (obj_get ([[(''format'', JStr ''jpeg''), (''width'', JNum 200)]] ! 0) ''format'')
   \<and> snd (createOptimizedSrc qs_stringify LEGACY_IMAGE_OPTIMIZER (JStr ''/a.jpg'') (Some 0)
            [[(''format'', JStr ''jpeg''), (''width'', JNum 200)]]) ! 0
       = [(''format'', JStr ''jpeg''), (''width'', JNum 200), (''fmt'', JStr ''jpeg'')]
   \<and> obj_get (snd (createOptimizedSrc qs_stringify LEGACY_IMAGE_OPTIMIZER (JStr ''/a.jpg'') (Some 0)
                     [[(''format'', JStr ''jpeg''), (''width'', JNum 200)]]) ! 0) ''fmt''
       = JStr ''jpeg''"
proof -
  let ?h = "[[(''format'', JStr ''jpeg''), (''width'', JNum 200)]]"
  have len: "(0::nat) < length ?h" by simp
  have fmt: "truthy (obj_get (?h ! 0) ''format'')" by simp
  have after:
    "snd (createOptimizedSrc qs_stringify LEGACY_IMAGE_OPTIMIZER (JStr ''/a.jpg'') (Some 0) ?h) ! 0
       = [(''format'', JStr ''jpeg''), (''width'', JNum 200), (''fmt'', JStr ''jpeg'')]"
    by (simp add: createOptimizedSrc_def obj_keys_def)
  from format_copied_to_fmt
         [OF len fmt, of qs_stringify LEGACY_IMAGE_OPTIMIZER "JStr ''/a.jpg''"]
  have "obj_get (snd (createOptimizedSrc qs_stringify LEGACY_IMAGE_OPTIMIZER (JStr ''/a.jpg'')
                        (Some 0) ?h) ! 0) ''fmt'' = JStr ''jpeg''"
    by simp
  with len fmt after show ?thesis by blast
qed

text \<open>
  C4, as stated: the options argument is unchanged after the call. It fails at
  \<open>options = {format: "webp"}\<close>: after the call the caller's object has the key
  \<open>fmt\<close> as well.
\<close>

theorem options_mutated_counterexample:
  "snd (createOptimizedSrc qs_stringify LEGACY_IMAGE_OPTIMIZER (JStr ''/a.jpg'') (Some 0)
          [[(''format'', JStr ''webp'')]]) \<noteq> [[(''format'', JStr ''webp'')]]"
  by (simp add: createOptimizedSrc_def obj_keys_def)

text \<open>
  C4, amended: the call leaves every object of the store as it was, except that for a
  truthy \<open>options.format\<close> it sets \<open>options.fmt\<close> to that value on the caller's
  object; a second call with the same object gives the same result and changes nothing
  more.
\<close>

theorem createOptimizedSrc_sets_fmt_only:
  assumes "r < length h"
  shows "snd (createOptimizedSrc stringify base s (Some r) h) =
           (if truthy (obj_get (h ! r) ''format'')
            then h[r := obj_set (h ! r) ''fmt'' (obj_get (h ! r) ''format'')]
            else h)
         \<and> createOptimizedSrc stringify base s (Some r)
             (snd (createOptimizedSrc stringify base s (Some r) h))
           = createOptimizedSrc stringify base s (Some r) h"
proof -
  let ?fmt = "obj_get (h ! r) ''format''"
  let ?h1 = "snd (createOptimizedSrc stringify base s (Some r) h)"
  have heap: "?h1 = (if truthy ?fmt then h[r := obj_set (h ! r) ''fmt'' ?fmt] else h)"
    using assms by (rule createOptimizedSrc_heap)
  have again: "createOptimizedSrc stringify base s (Some r) ?h1
                 = createOptimizedSrc stringify base s (Some r) h"
  proof (cases "truthy ?fmt")
    case False
    with heap show ?thesis by simp
  next
    case True
    with heap have h1: "?h1 = h[r := obj_set (h ! r) ''fmt'' ?fmt]" by simp
    from True have "h ! r \<noteq> []" by (cases "h ! r") auto
    with assms True show ?thesis
      unfolding h1
      by (simp add: createOptimizedSrc_def obj_keys_def Let_def obj_get_obj_set
            obj_set_twice obj_set_nonempty)
  qed
  from heap again show ?thesis by simp
qed

theorem createOptimizedSrc_sets_fmt_only_witness:
  "(0::nat) < length [[(''format'', JStr ''webp'')]]
   \<and> snd (createOptimizedSrc qs_stringify LEGACY_IMAGE_OPTIMIZER (JStr ''/a.jpg'') (Some 0)
            [[(''format'', JStr ''webp'')]])
       = [[(''format'', JStr ''webp''), (''fmt'', JStr ''webp'')]]
   \<and> createOptimizedSrc qs_stringify LEGACY_IMAGE_OPTIMIZER (JStr ''/a.jpg'') (Some 0)
         (snd (createOptimizedSrc qs_stringify LEGACY_IMAGE_OPTIMIZER (JStr ''/a.jpg'') (Some 0)
                 [[(''format'', JStr ''webp'')]]))
       = createOptimizedSrc qs_stringify LEGACY_IMAGE_OPTIMIZER (JStr ''/a.jpg'') (Some 0)
           [[(''format'', JStr ''webp'')]]"
proof -
  have len: "(0::nat) < length [[(''format'', JStr ''webp'')]]" by simp
  note inst = createOptimizedSrc_sets_fmt_only
                [OF len, of qs_stringify LEGACY_IMAGE_OPTIMIZER "JStr ''/a.jpg''"]
  from inst have
    "snd (createOptimizedSrc qs_stringify LEGACY_IMAGE_OPTIMIZER (JStr ''/a.jpg'') (Some 0)
            [[(''format'', JStr ''webp'')]])
       = [[(''format'', JStr ''webp''), (''fmt'', JStr ''webp'')]]"
    by simp
  with len inst show ?thesis by blast
qed

section \<open>The load state machine: results\<close>

lemma step_keeps_loaded: "loaded st = JBool True \<Longrightarrow> loaded (step e st) = JBool True"
  by (cases e)
     (auto simp: componentDidMount_def handleNotFound_def lazyLoad_def split: option.splits)

lemma run_keeps_loaded: "loaded st = JBool True \<Longrightarrow> loaded (run es st) = JBool True"
  by (induction es arbitrary: st) (auto simp: step_keeps_loaded)

lemma step_keeps_primaryNotFound:
  "primaryNotFound st = JBool True \<Longrightarrow> primaryNotFound (step e st) = JBool True"
  by (cases e)
     (auto simp: componentDidMount_def handleNotFound_def lazyLoad_def split: option.splits)

lemma run_keeps_primaryNotFound:
  "primaryNotFound st = JBool True \<Longrightarrow> primaryNotFound (run es st) = JBool True"
  by (induction es arbitrary: st) (auto simp: step_keeps_primaryNotFound)

text \<open>
  C6. An instance constructed with \<open>lazy = true\<close> and \<open>amp = false\<close> starts with
  \<open>loaded = false\<close>; one visibility event with \<open>isVisible = true\<close> makes \<open>loaded\<close>
  true; and after that \<open>loaded\<close> is true after every sequence \<open>es\<close> of further events,
  visibility events with \<open>isVisible = false\<close> included.
\<close>

theorem loaded_is_a_latch:
  "loaded (constructor (JBool True) (JBool False)) = JBool False
   \<and> loaded (step (Visibility (JBool True)) (constructor (JBool True) (JBool False))) = JBool True
   \<and> loaded (run es (step (Visibility (JBool True)) (constructor (JBool True) (JBool False))))
       = JBool True"
proof -
  let ?s0 = "constructor (JBool True) (JBool False)"
  have init: "loaded ?s0 = JBool False"
    by (simp add: constructor_def js_or_def)
  have first: "loaded (step (Visibility (JBool True)) ?s0) = JBool True"
    by (simp add: constructor_def js_or_def lazyLoad_def)
  from first have "loaded (run es (step (Visibility (JBool True)) ?s0)) = JBool True"
    by (rule run_keeps_loaded)
  with init first show ?thesis by simp
qed

text \<open>
  C7. After an error event \<open>primaryNotFound\<close> is true; a second error event leaves the
  state as it is; and once \<open>primaryNotFound\<close> is true, it is true after every event and
  after every sequence of events (mount check, error, visibility).
\<close>

theorem primaryNotFound_is_a_latch:
  "primaryNotFound (step Error st) = JBool True
   \<and> step Error (step Error st) = step Error st
   \<and> (primaryNotFound st = JBool True \<longrightarrow>
        primaryNotFound (step e st) = JBool True \<and> primaryNotFound (run es st) = JBool True)"
  by (simp add: handleNotFound_def step_keeps_primaryNotFound run_keeps_primaryNotFound)

theorem primaryNotFound_is_a_latch_witness:
  "primaryNotFound (step Error (constructor (JBool False) (JBool False))) = JBool True
   \<and> primaryNotFound (step (Visibility (JBool False))
                        (step Error (constructor (JBool False) (JBool False)))) = JBool True
   \<and> primaryNotFound (run [Mount None, Visibility (JBool True), Error]
                        (step Error (constructor (JBool False) (JBool False)))) = JBool True"
proof -
  let ?s1 = "step Error (constructor (JBool False) (JBool False))"
  have hyp: "primaryNotFound ?s1 = JBool True"
    by (simp add: handleNotFound_def)
  from primaryNotFound_is_a_latch
         [of ?s1 "Visibility (JBool False)" "[Mount None, Visibility (JBool True), Error]"] hyp
  show ?thesis by blast
qed

section \<open>Rendering: results\<close>

text \<open>
  C5, as stated: with \<open>primaryNotFound\<close> true and \<open>notFoundSrc\<close> set, the src given to
  the image element is what the URL optimizer computes for the fallback source. It fails
  for the props \<open>src = "/a.jpg"\<close>, \<open>notFoundSrc = "/nf.png"\<close>: lines 226 to 228 select
  \<open>"/nf.png"\<close> itself, which does not start with the optimizer's base URL and is not
  what the optimizer, called with the render's options on the fallback source, gives.
\<close>

theorem fallback_src_counterexample:
  "effective_src (JBool True)
       (notFoundSrc ((defaultProps (JStr ''/a.jpg''))\<lparr>notFoundSrc := JStr ''/nf.png''\<rparr>))
       (JStr ''/a.jpg'') = JStr ''/nf.png''
   \<and> take (length (LEGACY_IMAGE_OPTIMIZER @ ''/?'')) ''/nf.png'' \<noteq> LEGACY_IMAGE_OPTIMIZER @ ''/?''
   \<and> fst (getOptimizedSrc qs_stringify LEGACY_IMAGE_OPTIMIZER
            ((defaultProps (JStr ''/nf.png''))\<lparr>notFoundSrc := JStr ''/nf.png''\<rparr>) default_heap)
       \<noteq> Inr (JStr ''/nf.png'')"
  by (simp add: effective_src_def js_and_def defaultProps_def default_heap_def
        getOptimizedSrc_def createOptimizedSrc_def obj_keys_def LEGACY_IMAGE_OPTIMIZER_def)

text \<open>
  C5, amended: with \<open>primaryNotFound\<close> and \<open>notFoundSrc\<close> both truthy, the src selected
  for the image element is the \<open>notFoundSrc\<close> prop itself, whatever the optimizer
  returned for the primary source; the optimizer is not applied to the fallback.
\<close>

theorem fallback_src_verbatim:
  "truthy pnf \<Longrightarrow> truthy nf \<Longrightarrow> effective_src pnf nf optimized = nf"
  by (simp add: effective_src_def js_and_def)

theorem fallback_src_verbatim_witness:
  "truthy (JBool True) \<and> truthy (JStr ''/nf.png'')
   \<and> effective_src (JBool True) (JStr ''/nf.png'')
        (JStr ''https://opt.moovweb.net/?quality=80&img=%2Fa.jpg'') = JStr ''/nf.png''"
  using fallback_src_verbatim
          [of "JBool True" "JStr ''/nf.png''" "JStr ''https://opt.moovweb.net/?quality=80&img=%2Fa.jpg''"]
  by simp

text \<open>
  C8, as stated: whenever an aspect ratio is specified, the contain flag is forced on.
  It fails for \<open>aspectRatio = 0\<close> with \<open>contain = false\<close>: \<open>false || 0\<close> is \<open>0\<close>,
  which is falsy, although line 234 treats the same prop as specified
  (\<open>aspectRatio != null\<close>).
\<close>

theorem contain_not_forced_counterexample:
  "\<not> loose_eq_null (JNum 0) \<and> \<not> truthy (effective_contain (JBool False) (JNum 0))"
  by (simp add: effective_contain_def js_or_def loose_eq_null_def)

text \<open>
  C8, amended: whenever the aspect ratio is truthy (a number other than 0 and NaN), the
  contain flag of line 221 is truthy whatever the \<open>contain\<close> prop is.
\<close>

theorem contain_forced_by_aspectRatio:
  "truthy ratio \<Longrightarrow> truthy (effective_contain c ratio)"
  by (simp add: effective_contain_def js_or_def)

theorem contain_forced_by_aspectRatio_witness:
  "truthy (JNum 50) \<and> truthy (effective_contain (JBool False) (JNum 50))"
  using contain_forced_by_aspectRatio [of "JNum 50" "JBool False"]
  by simp

text \<open>
  What a render does to the store: \<^verbatim>\<open>getOptimizedSrc\<close> allocates one object, and
  the assignment of line 91 can only hit that one.
\<close>

lemma getOptimizedSrc_heap:
  "snd (getOptimizedSrc stringify base p h) =
     h @ [(let options = obj_set (case optimize p of None \<Rightarrow> [] | Some r \<Rightarrow> h ! r)
                           ''quality'' (quality p)
           in if truthy (obj_get options ''format'')
              then obj_set options ''fmt'' (obj_get options ''format'')
              else options)]"
  by (simp add: getOptimizedSrc_def createOptimizedSrc_heap Let_def)

lemma getOptimizedSrc_throws:
  "fst (getOptimizedSrc stringify base p h) = Inl ReferenceError"
  by (simp add: getOptimizedSrc_def createOptimizedSrc_nonempty obj_set_nonempty Let_def)

lemma render_heap:
  "snd (render stringify base p st h) =
     (if loose_eq_null (src p) then h else snd (getOptimizedSrc stringify base p h))"
  by (simp add: render_def Let_def split: prod.splits sum.splits)

lemma render_result:
  "fst (render stringify base p st h) =
     (if loose_eq_null (src p) then Inr Null else Inl ReferenceError)"
proof (cases "getOptimizedSrc stringify base p h")
  case (Pair res h')
  with getOptimizedSrc_throws [of stringify base p h] have "res = Inl ReferenceError"
    by simp
  with Pair show ?thesis
    by (simp add: render_def Let_def)
qed

text \<open>
  C9. A render never changes the caller's \<open>optimize\<close> object: for every object \<open>r\<close> of
  the store before the call, and so for the one the \<open>optimize\<close> prop refers to, the
  object has the same keys and values after \<^verbatim>\<open>getOptimizedSrc\<close> and after
  \<^verbatim>\<open>render\<close>, also when \<open>optimize.format\<close> is set.
\<close>

theorem render_keeps_optimize:
  assumes "optimize p = Some r" and "r < length h"
  shows "snd (getOptimizedSrc stringify base p h) ! r = h ! r
         \<and> snd (render stringify base p st h) ! r = h ! r"
  using assms(2) by (simp add: render_heap getOptimizedSrc_heap nth_append)

theorem render_keeps_optimize_witness:
  "optimize ((defaultProps (JStr ''/a.jpg''))\<lparr>quality := JNum 80\<rparr>) = Some 0
   \<and> (0::nat) < length [[(''format'', JStr ''webp'')]]
   \<and> snd (getOptimizedSrc qs_stringify LEGACY_IMAGE_OPTIMIZER
            ((defaultProps (JStr ''/a.jpg''))\<lparr>quality := JNum 80\<rparr>)
            [[(''format'', JStr ''webp'')]]) ! 0 = [(''format'', JStr ''webp'')]
   \<and> snd (render qs_stringify LEGACY_IMAGE_OPTIMIZER
            ((defaultProps (JStr ''/a.jpg''))\<lparr>quality := JNum 80\<rparr>)
            (constructor (JBool False) JUndefined)
            [[(''format'', JStr ''webp'')]]) ! 0 = [(''format'', JStr ''webp'')]"
proof -
  let ?p = "(defaultProps (JStr ''/a.jpg''))\<lparr>quality := JNum 80\<rparr>"
  let ?h = "[[(''format'', JStr ''webp'')]]"
  have opt: "optimize ?p = Some 0" by (simp add: defaultProps_def)
  have len: "(0::nat) < length ?h" by simp
  from render_keeps_optimize
         [OF opt len, of qs_stringify LEGACY_IMAGE_OPTIMIZER "constructor (JBool False) JUndefined"]
       opt len
  show ?thesis by simp
qed

text \<open>
  C10. The claim: the component renders \<^verbatim>\<open>null\<close> exactly when \<open>src\<close> is
  \<^verbatim>\<open>null\<close> or \<^verbatim>\<open>undefined\<close>, and for every other \<open>src\<close>, the empty string
  included, it goes on and produces the container element. The code at \<open>src = ""\<close> with
  the default props: the guard of line 217 lets the empty string through, line 224 calls
  \<^verbatim>\<open>getOptimizedSrc\<close>, whose options always have the key \<open>quality\<close>, and line 94
  throws. No container element is produced; for \<open>src = null\<close> and \<open>src = undefined\<close>
  the result is \<^verbatim>\<open>null\<close>.
\<close>

theorem render_throws_for_empty_src:
  "fst (render qs_stringify LEGACY_IMAGE_OPTIMIZER (defaultProps (JStr []))
          (constructor (JBool False) JUndefined) default_heap) = Inl ReferenceError
   \<and> fst (render qs_stringify LEGACY_IMAGE_OPTIMIZER (defaultProps JNull)
            (constructor (JBool False) JUndefined) default_heap) = Inr Null
   \<and> fst (render qs_stringify LEGACY_IMAGE_OPTIMIZER (defaultProps JUndefined)
            (constructor (JBool False) JUndefined) default_heap) = Inr Null"
  by (simp add: render_def getOptimizedSrc_def createOptimizedSrc_def obj_keys_def
        defaultProps_def default_heap_def loose_eq_null_def effective_contain_def)

end
